theory Spec2Isabelle
  imports Main
begin

section \<open>Configuration (config.py)\<close>

text \<open>
  The numeric transfer parameters are the constants of \<^verbatim>\<open>config.py\<close>. The host,
  credentials, bucket and directory paths are placeholders there
  (\<^verbatim>\<open>"<ftp host ip>"\<close>, ...), filled in per deployment, so they are the fields of a
  record. \<^verbatim>\<open>FTPIngestion.__init__\<close> copies them into the object and never changes them;
  the methods below read them from the record.
\<close>

definition MB :: int where
  "MB = 1024 ^ 2"

definition GB :: int where
  "GB = 1024 ^ 3"

definition MULTIPART_THRESHOLD :: int where
  "MULTIPART_THRESHOLD = 100 * MB"

definition MULTIPART_CHUNKSIZE :: int where
  "MULTIPART_CHUNKSIZE = 20 * MB"

definition MAX_CUNCURRENCY :: int where
  "MAX_CUNCURRENCY = 10"

definition USER_THREADS :: bool where
  "USER_THREADS = True"

record config =
  FTP_HOST :: string
  FTP_PORT :: string
  FTP_USERNAME :: string
  FTP_PASSWORD :: string
  S3_BUCKET :: string
  PARENT_DIR_PATH :: string
  PROCESSED_DIR_PATH :: string

text \<open>The keyword arguments of boto3's \<^verbatim>\<open>TransferConfig\<close>.\<close>

record transfer_config =
  multipart_threshold :: int
  multipart_chunksize :: int
  max_concurrency :: int
  use_threads :: bool

section \<open>Python values: exceptions, strings, timestamps\<close>

text \<open>
  The exceptions are the subclasses of \<^verbatim>\<open>Exception\<close> the handlers tell apart, the two
  that Python itself raises on a \<^verbatim>\<open>None\<close> receiver or an empty list, and one constructor
  for every other subclass of \<^verbatim>\<open>Exception\<close>. Interrupts (\<^verbatim>\<open>BaseException\<close> outside
  \<^verbatim>\<open>Exception\<close>) are not modelled.
\<close>

datatype exn =
    AuthenticationException
  | SSHException
  | SFTPError
  | AttributeError
  | IndexError
  | OtherException

text \<open>\<^verbatim>\<open>s.split(sep)\<close> for a one-character separator: never the empty list.\<close>

fun split_py :: "char \<Rightarrow> string \<Rightarrow> string list" where
  "split_py sep [] = [[]]"
| "split_py sep (c # cs) =
     (if c = sep then [] # split_py sep cs
      else (case split_py sep cs of
              [] \<Rightarrow> [[c]]
            | w # ws \<Rightarrow> (c # w) # ws))"

text \<open>\<^verbatim>\<open>xs[i]\<close>: a negative index counts from the end, out of range raises.\<close>

definition index_py :: "'a list \<Rightarrow> int \<Rightarrow> exn + 'a" where
  "index_py xs i =
     (if i < 0
      then (if - i \<le> int (length xs) then Inr (xs ! (length xs - nat (- i))) else Inl IndexError)
      else (if i < int (length xs) then Inr (xs ! nat i) else Inl IndexError))"

text \<open>\<^verbatim>\<open>str(n)\<close> for an integer: decimal digits, a minus sign when negative.\<close>

definition digit_char :: "nat \<Rightarrow> char" where
  "digit_char d = char_of (48 + d)"

fun str_nat :: "nat \<Rightarrow> string" where
  "str_nat n = (if n < 10 then [digit_char n] else str_nat (n div 10) @ [digit_char (n mod 10)])"

definition str_int :: "int \<Rightarrow> string" where
  "str_int i = (if i < 0 then CHR ''-'' # str_nat (nat (- i)) else str_nat (nat i))"

text \<open>The fields of a \<^verbatim>\<open>datetime\<close>.\<close>

record datetime =
  year :: int
  month :: int
  day :: int
  hour :: int
  minute :: int
  second :: int

section \<open>The outside world\<close>

text \<open>
  paramiko, boto3 and the clock are outside the repository. Each of their calls is a
  function of an arbitrary world state \<open>'w\<close> that returns the call's result, or the
  exception it raises, and the next world state. Nothing is assumed about them.
\<close>

type_synonym file_obj = nat

record 'w env =
  ssh_connect :: "string \<Rightarrow> string \<Rightarrow> string \<Rightarrow> string \<Rightarrow> 'w \<Rightarrow> (exn + unit) \<times> 'w"
  open_sftp :: "'w \<Rightarrow> (exn + unit) \<times> 'w"
  sftp_chdir :: "string \<Rightarrow> 'w \<Rightarrow> (exn + unit) \<times> 'w"
  sftp_listdir :: "'w \<Rightarrow> (exn + string list) \<times> 'w"
  sftp_file :: "string \<Rightarrow> 'w \<Rightarrow> (exn + file_obj) \<times> 'w"
  upload_fileobj :: "file_obj \<Rightarrow> string \<Rightarrow> string \<Rightarrow> transfer_config \<Rightarrow> 'w \<Rightarrow> (exn + unit) \<times> 'w"
  exec_command :: "string \<Rightarrow> 'w \<Rightarrow> (exn + unit) \<times> 'w"
  sftp_close :: "'w \<Rightarrow> (exn + unit) \<times> 'w"
  ssh_close :: "'w \<Rightarrow> (exn + unit) \<times> 'w"
  datetime_now :: "'w \<Rightarrow> datetime \<times> 'w"

text \<open>
  Every call to the outside and every \<^verbatim>\<open>print\<close> is appended to a trace, the call with
  what came back. \<open>PrintErr msg e\<close> is \<^verbatim>\<open>print(msg, e)\<close>.
\<close>

datatype call =
    SSHConnect string string string string
  | OpenSFTP
  | Chdir string
  | Listdir
  | SFTPFile string
  | UploadFileobj file_obj string string transfer_config
  | ExecCommand string
  | SFTPClose
  | SSHClose
  | Now

datatype resp =
    Raised exn
  | Done
  | Names "string list"
  | Opened file_obj
  | Time datetime

datatype event =
    Print string
  | PrintErr string exn
  | Call call resp

section \<open>The FTPIngestion object\<close>

datatype ssh_obj = SSHClient

datatype sftp_obj = SFTPClient

text \<open>\<open>None\<close> in a client field is Python's \<^verbatim>\<open>None\<close>.\<close>

record 'w ingestion =
  ssh_client :: "ssh_obj option"
  sftp_client :: "sftp_obj option"
  ssh_ok :: bool
  sftp_ok :: bool
  world :: 'w
  trace :: "event list"

text \<open>\<^verbatim>\<open>__init__\<close>, with \<^verbatim>\<open>SSH_CLIENT = SFTP_CLIENT = None\<close> and both flags \<^verbatim>\<open>False\<close>.\<close>

definition init :: "'w \<Rightarrow> 'w ingestion" where
  "init w = \<lparr>ssh_client = None, sftp_client = None, ssh_ok = False, sftp_ok = False,
             world = w, trace = []\<rparr>"

definition emit :: "event \<Rightarrow> 'w ingestion \<Rightarrow> 'w ingestion" where
  "emit e s = s\<lparr>trace := trace s @ [e]\<rparr>"

definition resp_of :: "('a \<Rightarrow> resp) \<Rightarrow> exn + 'a \<Rightarrow> resp" where
  "resp_of ok r = (case r of Inl e \<Rightarrow> Raised e | Inr v \<Rightarrow> ok v)"

text \<open>One call to the outside: the world moves on, the trace records call and response.\<close>

definition call_ext ::
  "call \<Rightarrow> ('a \<Rightarrow> resp) \<Rightarrow> ('w \<Rightarrow> (exn + 'a) \<times> 'w) \<Rightarrow> 'w ingestion \<Rightarrow> (exn + 'a) \<times> 'w ingestion" where
  "call_ext c ok f s =
     (case f (world s) of
        (r, w') \<Rightarrow> (r, s\<lparr>world := w', trace := trace s @ [Call c (resp_of ok r)]\<rparr>))"

subsection \<open>create_ssh_connection\<close>

text \<open>The three handlers differ in the message they print.\<close>

definition ssh_except_message :: "exn \<Rightarrow> string" where
  "ssh_except_message e =
     (case e of
        AuthenticationException \<Rightarrow> ''Authentication Failed, error: ''
      | SSHException \<Rightarrow> ''Could not establish ssh connection, error: ''
      | _ \<Rightarrow> ''Error establishing connection, error: '')"

definition create_ssh_connection :: "'w env \<Rightarrow> config \<Rightarrow> 'w ingestion \<Rightarrow> (exn + bool) \<times> 'w ingestion" where
  "create_ssh_connection env cfg s0 =
     (let s1 = emit (Print ''Establishing connection with host...'') s0;
          s2 = s1\<lparr>ssh_client := Some SSHClient\<rparr>
      in case call_ext (SSHConnect (FTP_HOST cfg) (FTP_USERNAME cfg) (FTP_PASSWORD cfg) (FTP_PORT cfg))
                (\<lambda>_. Done)
                (ssh_connect env (FTP_HOST cfg) (FTP_USERNAME cfg) (FTP_PASSWORD cfg) (FTP_PORT cfg)) s2 of
           (Inr _, s3) \<Rightarrow>
             (let s4 = (emit (Print ''connected'') s3)\<lparr>ssh_ok := True\<rparr>
              in (Inr (ssh_ok s4), s4))
         | (Inl e, s3) \<Rightarrow>
             (let s4 = emit (PrintErr (ssh_except_message e) e) (s3\<lparr>ssh_ok := False\<rparr>)
              in (Inr (ssh_ok s4), s4)))"

subsection \<open>create_sftp_connection\<close>

text \<open>Both handlers (\<^verbatim>\<open>paramiko.SFTPError\<close> and \<^verbatim>\<open>Exception\<close>) do the same.\<close>

definition sftp_except :: "exn \<Rightarrow> 'w ingestion \<Rightarrow> (exn + bool) \<times> 'w ingestion" where
  "sftp_except e s =
     (let s' = emit (PrintErr ''could not establish sftp connection, error: '' e) (s\<lparr>sftp_ok := False\<rparr>)
      in (Inr (sftp_ok s'), s'))"

definition create_sftp_connection :: "'w env \<Rightarrow> config \<Rightarrow> 'w ingestion \<Rightarrow> (exn + bool) \<times> 'w ingestion" where
  "create_sftp_connection env cfg s0 =
     (case create_ssh_connection env cfg s0 of
        (Inl e, s1) \<Rightarrow> sftp_except e s1
      | (Inr True, s1) \<Rightarrow>
          (let s2 = emit (Print ''Establishing SFTP connection...'') s1
           in case ssh_client s2 of
                None \<Rightarrow> sftp_except AttributeError s2
              | Some _ \<Rightarrow>
                  (case call_ext OpenSFTP (\<lambda>_. Done) (open_sftp env) s2 of
                     (Inl e, s3) \<Rightarrow> sftp_except e s3
                   | (Inr _, s3) \<Rightarrow>
                       (let s4 = (emit (Print ''SFTP connection successfull'')
                                    (s3\<lparr>sftp_client := Some SFTPClient\<rparr>))\<lparr>sftp_ok := True\<rparr>
                        in (Inr (sftp_ok s4), s4))))
      | (Inr False, s1) \<Rightarrow>
          (let s2 = emit (Print ''Could not establish ssh connection'') s1
           in (Inr (sftp_ok s2), s2)))"

subsection \<open>move_files_to_processed\<close>

definition mv_command :: "config \<Rightarrow> string \<Rightarrow> string" where
  "mv_command cfg source_file_name =
     (let processed_directory = PROCESSED_DIR_PATH cfg;
          src = PARENT_DIR_PATH cfg @ ''/'' @ source_file_name;
          dest = processed_directory @ source_file_name
      in ''mv '' @ src @ '' '' @ dest)"

definition move_files_to_processed :: "'w env \<Rightarrow> config \<Rightarrow> string \<Rightarrow> 'w ingestion \<Rightarrow> (exn + unit) \<times> 'w ingestion" where
  "move_files_to_processed env cfg source_file_name s0 =
     (let s1 = emit (Print (''moving '' @ source_file_name @ '' to processed directory.'')) s0
      in case (case ssh_client s1 of
                 None \<Rightarrow> (Inl AttributeError, s1)
               | Some _ \<Rightarrow>
                   call_ext (ExecCommand (mv_command cfg source_file_name)) (\<lambda>_. Done)
                     (exec_command env (mv_command cfg source_file_name)) s1) of
           (Inl error, s2) \<Rightarrow>
             (Inr (), emit (PrintErr ''error moving files to processed directory, error: '' error) s2)
         | (Inr _, s2) \<Rightarrow> (Inr (), s2))"

subsection \<open>create_s3_partition\<close>

text \<open>The string built from the directory name and the clock reading.\<close>

definition partition_string :: "string \<Rightarrow> datetime \<Rightarrow> string" where
  "partition_string parent_dir current_date =
     (let current_year = str_int (year current_date);
          current_month = str_int (month current_date);
          current_day = str_int (day current_date);
          current_hour = str_int (hour current_date)
      in parent_dir @ ''/year = '' @ current_year @ ''/month = '' @ current_month
           @ ''/day = '' @ current_day @ ''/hour = '' @ current_hour @ ''/'')"

definition create_s3_partition :: "'w env \<Rightarrow> config \<Rightarrow> 'w ingestion \<Rightarrow> (exn + string) \<times> 'w ingestion" where
  "create_s3_partition env cfg s0 =
     (case index_py (split_py CHR ''/'' (PARENT_DIR_PATH cfg)) (- 1) of
        Inl e \<Rightarrow> (Inl e, s0)
      | Inr parent_dir \<Rightarrow>
          (case datetime_now env (world s0) of
             (current_date, w') \<Rightarrow>
               (Inr (partition_string parent_dir current_date),
                s0\<lparr>world := w', trace := trace s0 @ [Call Now (Time current_date)]\<rparr>)))"

subsection \<open>s3_upload_file_multipart\<close>

definition the_transfer_config :: transfer_config where
  "the_transfer_config =
     \<lparr>multipart_threshold = MULTIPART_THRESHOLD, multipart_chunksize = MULTIPART_CHUNKSIZE,
      max_concurrency = MAX_CUNCURRENCY, use_threads = USER_THREADS\<rparr>"

definition s3_upload_file_multipart ::
  "'w env \<Rightarrow> config \<Rightarrow> file_obj \<Rightarrow> string \<Rightarrow> 'w ingestion \<Rightarrow> (exn + bool) \<times> 'w ingestion" where
  "s3_upload_file_multipart env cfg source_file s3_target_file s0 =
     (let config = the_transfer_config
      in case call_ext (UploadFileobj source_file (S3_BUCKET cfg) s3_target_file config) (\<lambda>_. Done)
                (upload_fileobj env source_file (S3_BUCKET cfg) s3_target_file config) s0 of
           (Inr _, s1) \<Rightarrow> (Inr True, s1)
         | (Inl error, s1) \<Rightarrow>
             (Inr False,
              emit (PrintErr ''could not upload file using multipart upload, error: '' error) s1))"

subsection \<open>initiate_ingestion\<close>

text \<open>The loop over \<^verbatim>\<open>files_to_upload\<close>; the accumulator is \<^verbatim>\<open>files_to_move\<close>.\<close>

fun upload_loop ::
  "'w env \<Rightarrow> config \<Rightarrow> string \<Rightarrow> string list \<Rightarrow> string list \<Rightarrow> 'w ingestion
     \<Rightarrow> (exn + string list) \<times> 'w ingestion" where
  "upload_loop env cfg s3_partition [] files_to_move s = (Inr files_to_move, s)"
| "upload_loop env cfg s3_partition (ftp_file # rest) files_to_move s =
     (case sftp_client s of
        None \<Rightarrow> (Inl AttributeError, s)
      | Some _ \<Rightarrow>
          (case call_ext (SFTPFile ftp_file) Opened (sftp_file env ftp_file) s of
             (Inl e, s1) \<Rightarrow> (Inl e, s1)
           | (Inr sftp_file_obj, s1) \<Rightarrow>
               (case s3_upload_file_multipart env cfg sftp_file_obj (s3_partition @ ftp_file) s1 of
                  (Inl e, s2) \<Rightarrow> (Inl e, s2)
                | (Inr True, s2) \<Rightarrow>
                    upload_loop env cfg s3_partition rest (files_to_move @ [ftp_file])
                      (emit (Print ''file uploaded to s3'') s2)
                | (Inr False, s2) \<Rightarrow> upload_loop env cfg s3_partition rest files_to_move s2)))"

text \<open>The loop over \<^verbatim>\<open>files_to_move\<close>.\<close>

fun move_loop :: "'w env \<Rightarrow> config \<Rightarrow> string list \<Rightarrow> 'w ingestion \<Rightarrow> (exn + unit) \<times> 'w ingestion" where
  "move_loop env cfg [] s = (Inr (), s)"
| "move_loop env cfg (uploaded_file # rest) s =
     (case move_files_to_processed env cfg uploaded_file s of
        (Inl e, s1) \<Rightarrow> (Inl e, s1)
      | (Inr _, s1) \<Rightarrow> move_loop env cfg rest s1)"

text \<open>The body of the \<^verbatim>\<open>try\<close> block once the listing is there.\<close>

definition ingest_listed :: "'w env \<Rightarrow> config \<Rightarrow> string list \<Rightarrow> 'w ingestion \<Rightarrow> (exn + unit) \<times> 'w ingestion" where
  "ingest_listed env cfg files_to_upload s0 =
     (case create_s3_partition env cfg s0 of
        (Inl e, s1) \<Rightarrow> (Inl e, s1)
      | (Inr s3_partition, s1) \<Rightarrow>
          (case upload_loop env cfg s3_partition files_to_upload [] s1 of
             (Inl e, s2) \<Rightarrow> (Inl e, s2)
           | (Inr files_to_move, s2) \<Rightarrow>
               (if files_to_move \<noteq> [] then move_loop env cfg files_to_move s2
                else (Inr (), emit (Print ''nothing to upload'') s2))))"

text \<open>The \<^verbatim>\<open>try\<close> block of \<^verbatim>\<open>initiate_ingestion\<close>: \<open>Inl e\<close> is what reaches its handler.\<close>

definition ingestion_try :: "'w env \<Rightarrow> config \<Rightarrow> 'w ingestion \<Rightarrow> (exn + unit) \<times> 'w ingestion" where
  "ingestion_try env cfg s0 =
     (case create_sftp_connection env cfg s0 of
        (Inl e, s1) \<Rightarrow> (Inl e, s1)
      | (Inr False, s1) \<Rightarrow> (Inr (), emit (Print ''Could not establish SFTP connection'') s1)
      | (Inr True, s1) \<Rightarrow>
          (case sftp_client s1 of
             None \<Rightarrow> (Inl AttributeError, s1)
           | Some _ \<Rightarrow>
               (case call_ext (Chdir (PARENT_DIR_PATH cfg)) (\<lambda>_. Done)
                       (sftp_chdir env (PARENT_DIR_PATH cfg)) s1 of
                  (Inl e, s2) \<Rightarrow> (Inl e, s2)
                | (Inr _, s2) \<Rightarrow>
                    (case sftp_client s2 of
                       None \<Rightarrow> (Inl AttributeError, s2)
                     | Some _ \<Rightarrow>
                         (case call_ext Listdir Names (sftp_listdir env) s2 of
                            (Inl e, s3) \<Rightarrow> (Inl e, s3)
                          | (Inr files_to_upload, s3) \<Rightarrow> ingest_listed env cfg files_to_upload s3)))))"

subsection \<open>close_connections\<close>

definition close_connections :: "'w env \<Rightarrow> 'w ingestion \<Rightarrow> (exn + unit) \<times> 'w ingestion" where
  "close_connections env s0 =
     (let s1 = emit (Print ''closing connections'') s0
      in case sftp_client s1 of
           None \<Rightarrow> (Inl AttributeError, s1)
         | Some _ \<Rightarrow>
             (case call_ext SFTPClose (\<lambda>_. Done) (sftp_close env) s1 of
                (Inl e, s2) \<Rightarrow> (Inl e, s2)
              | (Inr _, s2) \<Rightarrow>
                  (case ssh_client s2 of
                     None \<Rightarrow> (Inl AttributeError, s2)
                   | Some _ \<Rightarrow> call_ext SSHClose (\<lambda>_. Done) (ssh_close env) s2)))"

text \<open>
  \<^verbatim>\<open>initiate_ingestion\<close>: the handler prints, and \<^verbatim>\<open>close_connections\<close> is called after
  the \<^verbatim>\<open>try\<close> statement, outside any handler. \<open>Inl e\<close> is an exception that leaves the
  method.
\<close>

definition initiate_ingestion :: "'w env \<Rightarrow> config \<Rightarrow> 'w ingestion \<Rightarrow> (exn + unit) \<times> 'w ingestion" where
  "initiate_ingestion env cfg s0 =
     (case ingestion_try env cfg s0 of
        (Inl error, s1) \<Rightarrow>
          close_connections env (emit (PrintErr ''file ingestion failed, error: '' error) s1)
      | (Inr _, s1) \<Rightarrow> close_connections env s1)"

text \<open>The \<^verbatim>\<open>__main__\<close> block: a fresh object, one run.\<close>

definition main :: "'w env \<Rightarrow> config \<Rightarrow> 'w \<Rightarrow> (exn + unit) \<times> 'w ingestion" where
  "main env cfg w = initiate_ingestion env cfg (init w)"

section \<open>The traces of the two loops\<close>

definition upload_call :: "config \<Rightarrow> file_obj \<Rightarrow> string \<Rightarrow> call" where
  "upload_call cfg obj key = UploadFileobj obj (S3_BUCKET cfg) key the_transfer_config"

inductive upload_events ::
  "config \<Rightarrow> string \<Rightarrow> string list \<Rightarrow> string list \<Rightarrow> exn + string list \<Rightarrow> event list \<Rightarrow> bool"
  for cfg :: config and P :: string where
  ue_end: "upload_events cfg P [] acc (Inr acc) []"
| ue_open_raised: "upload_events cfg P (f # rest) acc (Inl e) [Call (SFTPFile f) (Raised e)]"
| ue_uploaded:
    "upload_events cfg P rest (acc @ [f]) r evs \<Longrightarrow>
     upload_events cfg P (f # rest) acc r
       (Call (SFTPFile f) (Opened obj) # Call (upload_call cfg obj (P @ f)) Done
          # Print ''file uploaded to s3'' # evs)"
| ue_upload_raised:
    "upload_events cfg P rest acc r evs \<Longrightarrow>
     upload_events cfg P (f # rest) acc r
       (Call (SFTPFile f) (Opened obj) # Call (upload_call cfg obj (P @ f)) (Raised e)
          # PrintErr ''could not upload file using multipart upload, error: '' e # evs)"

inductive move_events :: "config \<Rightarrow> string list \<Rightarrow> event list \<Rightarrow> bool"
  for cfg :: config where
  me_end: "move_events cfg [] []"
| me_moved:
    "move_events cfg rest evs \<Longrightarrow>
     move_events cfg (f # rest)
       (Print (''moving '' @ f @ '' to processed directory.'')
          # Call (ExecCommand (mv_command cfg f)) Done # evs)"
| me_move_raised:
    "move_events cfg rest evs \<Longrightarrow>
     move_events cfg (f # rest)
       (Print (''moving '' @ f @ '' to processed directory.'')
          # Call (ExecCommand (mv_command cfg f)) (Raised e)
          # PrintErr ''error moving files to processed directory, error: '' e # evs)"

section \<open>The traces of a whole run\<close>

definition ssh_connect_call :: "config \<Rightarrow> call" where
  "ssh_connect_call cfg = SSHConnect (FTP_HOST cfg) (FTP_USERNAME cfg) (FTP_PASSWORD cfg) (FTP_PORT cfg)"

definition connected_events :: "config \<Rightarrow> event list" where
  "connected_events cfg =
     [Print ''Establishing connection with host...'', Call (ssh_connect_call cfg) Done,
      Print ''connected'', Print ''Establishing SFTP connection...'', Call OpenSFTP Done,
      Print ''SFTP connection successfull'']"

definition unopened_events :: "config \<Rightarrow> event list \<Rightarrow> bool" where
  "unopened_events cfg evs \<longleftrightarrow>
     (\<exists>e. evs = [Print ''Establishing connection with host...'', Call (ssh_connect_call cfg) (Raised e),
                  PrintErr (ssh_except_message e) e, Print ''Could not establish ssh connection''])
     \<or> (\<exists>e. evs = [Print ''Establishing connection with host...'', Call (ssh_connect_call cfg) Done,
                  Print ''connected'', Print ''Establishing SFTP connection...'',
                  Call OpenSFTP (Raised e),
                  PrintErr ''could not establish sftp connection, error: '' e])"

definition close_events :: "exn + unit \<Rightarrow> event list \<Rightarrow> bool" where
  "close_events r evs \<longleftrightarrow>
     (\<exists>e. r = Inl e \<and> evs = [Print ''closing connections'', Call SFTPClose (Raised e)])
     \<or> evs = [Print ''closing connections'', Call SFTPClose Done,
              Call SSHClose (resp_of (\<lambda>_. Done) r)]"

definition run_partition :: "config \<Rightarrow> datetime \<Rightarrow> string" where
  "run_partition cfg t = partition_string (last (split_py CHR ''/'' (PARENT_DIR_PATH cfg))) t"

definition listed_events :: "config \<Rightarrow> string list \<Rightarrow> datetime \<Rightarrow> event list" where
  "listed_events cfg fs t =
     connected_events cfg @
     [Call (Chdir (PARENT_DIR_PATH cfg)) Done, Call Listdir (Names fs), Call Now (Time t)]"

inductive run_events :: "config \<Rightarrow> exn + unit \<Rightarrow> event list \<Rightarrow> bool"
  for cfg :: config where
  re_unopened:
    "unopened_events cfg pre \<Longrightarrow>
     run_events cfg (Inl AttributeError)
       (pre @ [Print ''Could not establish SFTP connection'', Print ''closing connections''])"
| re_chdir_raised:
    "close_events r cl \<Longrightarrow>
     run_events cfg r
       (connected_events cfg @
        [Call (Chdir (PARENT_DIR_PATH cfg)) (Raised e), PrintErr ''file ingestion failed, error: '' e] @ cl)"
| re_listdir_raised:
    "close_events r cl \<Longrightarrow>
     run_events cfg r
       (connected_events cfg @
        [Call (Chdir (PARENT_DIR_PATH cfg)) Done, Call Listdir (Raised e),
         PrintErr ''file ingestion failed, error: '' e] @ cl)"
| re_loop_raised:
    "upload_events cfg (run_partition cfg t) fs [] (Inl e) up \<Longrightarrow> close_events r cl \<Longrightarrow>
     run_events cfg r
       (listed_events cfg fs t @ up @ [PrintErr ''file ingestion failed, error: '' e] @ cl)"
| re_nothing:
    "upload_events cfg (run_partition cfg t) fs [] (Inr []) up \<Longrightarrow> close_events r cl \<Longrightarrow>
     run_events cfg r (listed_events cfg fs t @ up @ [Print ''nothing to upload''] @ cl)"
| re_moved:
    "upload_events cfg (run_partition cfg t) fs [] (Inr moved) up \<Longrightarrow> moved \<noteq> [] \<Longrightarrow>
     move_events cfg moved mv \<Longrightarrow> close_events r cl \<Longrightarrow>
     run_events cfg r (listed_events cfg fs t @ up @ mv @ cl)"

section \<open>Reading a trace\<close>

definition pick :: "(event \<Rightarrow> 'a list) \<Rightarrow> event list \<Rightarrow> 'a list" where
  "pick f evs = concat (map f evs)"

definition touch_of :: "event \<Rightarrow> call list" where
  "touch_of e =
     (case e of
        Call c r \<Rightarrow>
          (case c of
             Chdir d \<Rightarrow> [c] | Listdir \<Rightarrow> [c] | SFTPFile f \<Rightarrow> [c]
           | UploadFileobj obj b k tc \<Rightarrow> [c] | ExecCommand m \<Rightarrow> [c] | _ \<Rightarrow> [])
      | _ \<Rightarrow> [])"

definition clock_of :: "event \<Rightarrow> datetime list" where
  "clock_of e = (case e of Call Now (Time t) \<Rightarrow> [t] | _ \<Rightarrow> [])"

definition listed_of :: "event \<Rightarrow> string list list" where
  "listed_of e = (case e of Call Listdir (Names fs) \<Rightarrow> [fs] | _ \<Rightarrow> [])"

definition opened_of :: "event \<Rightarrow> string list" where
  "opened_of e = (case e of Call (SFTPFile f) r \<Rightarrow> [f] | _ \<Rightarrow> [])"

definition opened_ok_of :: "event \<Rightarrow> string list" where
  "opened_ok_of e = (case e of Call (SFTPFile f) (Opened obj) \<Rightarrow> [f] | _ \<Rightarrow> [])"

definition open_failure_of :: "event \<Rightarrow> string list" where
  "open_failure_of e = (case e of Call (SFTPFile f) (Raised x) \<Rightarrow> [f] | _ \<Rightarrow> [])"

definition upload_key_of :: "event \<Rightarrow> string list" where
  "upload_key_of e = (case e of Call (UploadFileobj obj b k tc) r \<Rightarrow> [k] | _ \<Rightarrow> [])"

definition uploaded_ok_of :: "event \<Rightarrow> string list" where
  "uploaded_ok_of e = (case e of Call (UploadFileobj obj b k tc) Done \<Rightarrow> [k] | _ \<Rightarrow> [])"

definition exec_of :: "event \<Rightarrow> string list" where
  "exec_of e = (case e of Call (ExecCommand m) r \<Rightarrow> [m] | _ \<Rightarrow> [])"

definition exec_raised_of :: "event \<Rightarrow> exn list" where
  "exec_raised_of e = (case e of Call (ExecCommand m) (Raised x) \<Rightarrow> [x] | _ \<Rightarrow> [])"

definition move_logged_of :: "event \<Rightarrow> exn list" where
  "move_logged_of e =
     (case e of
        PrintErr m x \<Rightarrow> (if m = ''error moving files to processed directory, error: '' then [x] else [])
      | _ \<Rightarrow> [])"

definition closing_of :: "event \<Rightarrow> unit list" where
  "closing_of e = (case e of Print m \<Rightarrow> (if m = ''closing connections'' then [()] else []) | _ \<Rightarrow> [])"

section \<open>Runs as traces, and test doubles\<close>

definition run_trace :: "'w env \<Rightarrow> config \<Rightarrow> 'w \<Rightarrow> event list" where
  "run_trace env cfg w = trace (snd (main env cfg w))"

definition idle :: "event list \<Rightarrow> bool" where
  "idle evs \<longleftrightarrow>
     pick listed_of evs = [] \<and> pick clock_of evs = [] \<and> pick opened_of evs = []
     \<and> pick opened_ok_of evs = [] \<and> pick open_failure_of evs = []
     \<and> pick upload_key_of evs = [] \<and> pick uploaded_ok_of evs = []
     \<and> pick exec_of evs = [] \<and> pick exec_raised_of evs = [] \<and> pick move_logged_of evs = []"

definition sim_env ::
  "bool \<Rightarrow> bool \<Rightarrow> string list \<Rightarrow> datetime \<Rightarrow> string list \<Rightarrow> string list \<Rightarrow> string list \<Rightarrow> unit env" where
  "sim_env ssh_up sftp_up listing t bad_open bad_upload bad_move =
     \<lparr>ssh_connect = (\<lambda>h u p q w. (if ssh_up then Inr () else Inl AuthenticationException, w)),
      open_sftp = (\<lambda>w. (if sftp_up then Inr () else Inl SFTPError, w)),
      sftp_chdir = (\<lambda>d w. (Inr (), w)),
      sftp_listdir = (\<lambda>w. (Inr listing, w)),
      sftp_file = (\<lambda>f w. (if f \<in> set bad_open then Inl OtherException else Inr 0, w)),
      upload_fileobj = (\<lambda>obj b k tc w. (if k \<in> set bad_upload then Inl OtherException else Inr (), w)),
      exec_command = (\<lambda>c w. (if c \<in> set bad_move then Inl OtherException else Inr (), w)),
      sftp_close = (\<lambda>w. (Inr (), w)),
      ssh_close = (\<lambda>w. (Inr (), w)),
      datetime_now = (\<lambda>w. (t, w))\<rparr>"

definition cfg0 :: config where
  "cfg0 = \<lparr>FTP_HOST = ''h'', FTP_PORT = ''22'', FTP_USERNAME = ''u'', FTP_PASSWORD = ''p'',
           S3_BUCKET = ''b'', PARENT_DIR_PATH = ''/data/exports'', PROCESSED_DIR_PATH = ''/data/processed/''\<rparr>"

definition t0 :: datetime where
  "t0 = \<lparr>year = 2024, month = 5, day = 3, hour = 13, minute = 0, second = 0\<rparr>"

definition env_open_fails :: "unit env" where
  "env_open_fails = sim_env True True [''a.csv'', ''b.bin'', ''c.txt''] t0 [''b.bin''] [] []"

definition env_mixed :: "unit env" where
  "env_mixed = sim_env True True [''a.csv'', ''b.bin''] t0 []
     [''exports/year = 2024/month = 5/day = 3/hour = 13/b.bin'']
     [''mv /data/exports/a.csv /data/processed/a.csv'']"


definition env_sftp_down :: "unit env" where
  "env_sftp_down = sim_env True False [''a.csv'', ''b.bin''] t0 [] [] []"

section \<open>Concrete states and keys\<close>


definition key0 :: "string \<Rightarrow> string" where
  "key0 f = ''exports/year = 2024/month = 5/day = 3/hour = 13/'' @ f"

section \<open>One call, one loop\<close>

lemma emit_fields [simp]:
  "trace (emit e s) = trace s @ [e]"
  "ssh_client (emit e s) = ssh_client s"
  "sftp_client (emit e s) = sftp_client s"
  "ssh_ok (emit e s) = ssh_ok s"
  "sftp_ok (emit e s) = sftp_ok s"
  "world (emit e s) = world s"
  by (simp_all add: emit_def)

lemma call_ext_effect:
  "call_ext c ok f s = (r, s') \<Longrightarrow>
     fst (f (world s)) = r \<and> trace s' = trace s @ [Call c (resp_of ok r)]
     \<and> ssh_client s' = ssh_client s \<and> sftp_client s' = sftp_client s
     \<and> ssh_ok s' = ssh_ok s \<and> sftp_ok s' = sftp_ok s"
  by (auto simp: call_ext_def split: prod.splits)

lemma resp_of_simps [simp]:
  "resp_of ok (Inl e) = Raised e"
  "resp_of ok (Inr v) = ok v"
  by (simp_all add: resp_of_def)

lemma s3_upload_effect:
  assumes "s3_upload_file_multipart env cfg obj key s = (r, s')"
  shows "ssh_client s' = ssh_client s \<and> sftp_client s' = sftp_client s \<and>
     ((r = Inr True \<and> trace s' = trace s @ [Call (upload_call cfg obj key) Done])
      \<or> (\<exists>e. r = Inr False \<and>
        trace s' = trace s @ [Call (upload_call cfg obj key) (Raised e),
             PrintErr ''could not upload file using multipart upload, error: '' e]))"
proof -
  obtain r1 s1 where c1:
    "call_ext (upload_call cfg obj key) (\<lambda>_. Done)
       (upload_fileobj env obj (S3_BUCKET cfg) key the_transfer_config) s = (r1, s1)"
    by (cases "call_ext (upload_call cfg obj key) (\<lambda>_. Done)
       (upload_fileobj env obj (S3_BUCKET cfg) key the_transfer_config) s")
  note e1 = call_ext_effect [OF c1]
  show ?thesis
  proof (cases r1)
    case (Inl e)
    with assms c1 e1 show ?thesis
      by (auto simp: s3_upload_file_multipart_def upload_call_def)
  next
    case (Inr u)
    with assms c1 e1 show ?thesis
      by (auto simp: s3_upload_file_multipart_def upload_call_def)
  qed
qed

lemma upload_loop_events:
  "sftp_client s = Some c \<Longrightarrow> upload_loop env cfg P fs acc s = (r, s') \<Longrightarrow>
     \<exists>evs. trace s' = trace s @ evs \<and> ssh_client s' = ssh_client s
       \<and> sftp_client s' = sftp_client s \<and> upload_events cfg P fs acc r evs"
proof (induction fs arbitrary: acc s)
  case Nil
  then show ?case by (auto intro: ue_end)
next
  case (Cons f rest)
  obtain r1 s1 where c1: "call_ext (SFTPFile f) Opened (sftp_file env f) s = (r1, s1)"
    by (cases "call_ext (SFTPFile f) Opened (sftp_file env f) s")
  note e1 = call_ext_effect [OF c1]
  show ?case
  proof (cases r1)
    case (Inl e)
    with Cons.prems c1 e1 show ?thesis
      by (auto intro: ue_open_raised)
  next
    case (Inr obj)
    obtain r2 s2 where c2: "s3_upload_file_multipart env cfg obj (P @ f) s1 = (r2, s2)"
      by (cases "s3_upload_file_multipart env cfg obj (P @ f) s1")
    note e2 = s3_upload_effect [OF c2]
    from e2 consider (ok) "r2 = Inr True"
        "trace s2 = trace s1 @ [Call (upload_call cfg obj (P @ f)) Done]"
      | (bad) e where "r2 = Inr False"
        "trace s2 = trace s1 @ [Call (upload_call cfg obj (P @ f)) (Raised e),
             PrintErr ''could not upload file using multipart upload, error: '' e]"
      by blast
    then show ?thesis
    proof cases
      case ok
      with Cons.prems c1 Inr c2
      have rec: "upload_loop env cfg P rest (acc @ [f]) (emit (Print ''file uploaded to s3'') s2) = (r, s')"
        by simp
      have sc: "sftp_client (emit (Print ''file uploaded to s3'') s2) = Some c"
        using Cons.prems(1) e1 e2 by simp
      from Cons.IH [OF sc rec] obtain evs where
        t: "trace s' = trace (emit (Print ''file uploaded to s3'') s2) @ evs" and
        k: "ssh_client s' = ssh_client (emit (Print ''file uploaded to s3'') s2)"
           "sftp_client s' = sftp_client (emit (Print ''file uploaded to s3'') s2)" and
        u: "upload_events cfg P rest (acc @ [f]) r evs"
        by blast
      have "trace s' = trace s @ (Call (SFTPFile f) (Opened obj) # Call (upload_call cfg obj (P @ f)) Done
          # Print ''file uploaded to s3'' # evs)"
        using t e1 ok Inr by simp
      moreover have "ssh_client s' = ssh_client s" "sftp_client s' = sftp_client s"
        using k e1 e2 by simp_all
      ultimately show ?thesis using ue_uploaded [OF u] by blast
    next
      case bad
      with Cons.prems c1 Inr c2
      have rec: "upload_loop env cfg P rest acc s2 = (r, s')"
        by simp
      have sc: "sftp_client s2 = Some c"
        using Cons.prems(1) e1 e2 by simp
      from Cons.IH [OF sc rec] obtain evs where
        t: "trace s' = trace s2 @ evs" and
        k: "ssh_client s' = ssh_client s2" "sftp_client s' = sftp_client s2" and
        u: "upload_events cfg P rest acc r evs"
        by blast
      have "trace s' = trace s @ (Call (SFTPFile f) (Opened obj) # Call (upload_call cfg obj (P @ f)) (Raised e)
          # PrintErr ''could not upload file using multipart upload, error: '' e # evs)"
        using t e1 bad Inr by simp
      moreover have "ssh_client s' = ssh_client s" "sftp_client s' = sftp_client s"
        using k e1 e2 by simp_all
      ultimately show ?thesis using ue_upload_raised [OF u] by blast
    qed
  qed
qed

lemma move_files_effect:
  assumes "ssh_client s = Some c" and "move_files_to_processed env cfg f s = (r, s')"
  shows "r = Inr () \<and> ssh_client s' = ssh_client s \<and> sftp_client s' = sftp_client s \<and>
     (trace s' = trace s @ [Print (''moving '' @ f @ '' to processed directory.''),
          Call (ExecCommand (mv_command cfg f)) Done]
      \<or> (\<exists>e. trace s' = trace s @ [Print (''moving '' @ f @ '' to processed directory.''),
          Call (ExecCommand (mv_command cfg f)) (Raised e),
          PrintErr ''error moving files to processed directory, error: '' e]))"
proof -
  let ?s1 = "emit (Print (''moving '' @ f @ '' to processed directory.'')) s"
  obtain r1 s2 where c1:
    "call_ext (ExecCommand (mv_command cfg f)) (\<lambda>_. Done) (exec_command env (mv_command cfg f)) ?s1
       = (r1, s2)"
    by (cases "call_ext (ExecCommand (mv_command cfg f)) (\<lambda>_. Done)
                 (exec_command env (mv_command cfg f)) ?s1")
  note e1 = call_ext_effect [OF c1]
  show ?thesis
  proof (cases r1)
    case (Inl e)
    with assms c1 e1 show ?thesis
      by (auto simp: move_files_to_processed_def Let_def)
  next
    case (Inr u)
    with assms c1 e1 show ?thesis
      by (auto simp: move_files_to_processed_def Let_def)
  qed
qed

lemma move_loop_events:
  "ssh_client s = Some c \<Longrightarrow> move_loop env cfg fs s = (r, s') \<Longrightarrow>
     r = Inr () \<and> ssh_client s' = ssh_client s \<and> sftp_client s' = sftp_client s
     \<and> (\<exists>evs. trace s' = trace s @ evs \<and> move_events cfg fs evs)"
proof (induction fs arbitrary: s)
  case Nil
  then show ?case by (auto intro: me_end)
next
  case (Cons f rest)
  obtain r1 s1 where c1: "move_files_to_processed env cfg f s = (r1, s1)"
    by (cases "move_files_to_processed env cfg f s")
  note e1 = move_files_effect [OF Cons.prems(1) c1]
  from e1 Cons.prems c1 have rec: "move_loop env cfg rest s1 = (r, s')"
    by simp
  from e1 Cons.prems(1) have sc: "ssh_client s1 = Some c"
    by simp
  from Cons.IH [OF sc rec] obtain evs where
    k: "r = Inr ()" "ssh_client s' = ssh_client s1" "sftp_client s' = sftp_client s1" and
    t: "trace s' = trace s1 @ evs" and m: "move_events cfg rest evs"
    by blast
  from e1 consider (ok) "trace s1 = trace s @ [Print (''moving '' @ f @ '' to processed directory.''),
          Call (ExecCommand (mv_command cfg f)) Done]"
    | (bad) e where "trace s1 = trace s @ [Print (''moving '' @ f @ '' to processed directory.''),
          Call (ExecCommand (mv_command cfg f)) (Raised e),
          PrintErr ''error moving files to processed directory, error: '' e]"
    by blast
  then show ?case
  proof cases
    case ok
    with t have "trace s' = trace s @ (Print (''moving '' @ f @ '' to processed directory.'')
          # Call (ExecCommand (mv_command cfg f)) Done # evs)"
      by simp
    with k e1 me_moved [OF m] show ?thesis by auto
  next
    case bad
    with t have "trace s' = trace s @ (Print (''moving '' @ f @ '' to processed directory.'')
          # Call (ExecCommand (mv_command cfg f)) (Raised e)
          # PrintErr ''error moving files to processed directory, error: '' e # evs)"
      by simp
    with k e1 me_move_raised [OF m] show ?thesis by auto
  qed
qed

section \<open>Opening and closing the session\<close>

lemma split_py_nonempty: "split_py sep s \<noteq> []"
  by (induction s) (auto split: list.splits)

lemma index_py_last: "xs \<noteq> [] \<Longrightarrow> index_py xs (- 1) = Inr (last xs)"
  by (cases xs rule: rev_cases) (auto simp: index_py_def Let_def nth_append)

lemma create_s3_partition_effect:
  assumes "create_s3_partition env cfg s = (r, s')"
  shows "\<exists>t. r = Inr (run_partition cfg t) \<and> trace s' = trace s @ [Call Now (Time t)]
           \<and> ssh_client s' = ssh_client s \<and> sftp_client s' = sftp_client s"
proof -
  have "index_py (split_py CHR ''/'' (PARENT_DIR_PATH cfg)) (- 1)
          = Inr (last (split_py CHR ''/'' (PARENT_DIR_PATH cfg)))"
    by (rule index_py_last) (rule split_py_nonempty)
  with assms show ?thesis
    by (auto simp: create_s3_partition_def run_partition_def split: prod.splits)
qed

lemma create_sftp_connection_init:
  assumes "create_sftp_connection env cfg (init w) = (r, s1)"
  shows "(r = Inr True \<and> trace s1 = connected_events cfg
            \<and> sftp_client s1 = Some SFTPClient \<and> ssh_client s1 = Some SSHClient)
         \<or> (r = Inr False \<and> unopened_events cfg (trace s1) \<and> sftp_client s1 = None)"
proof -
  let ?s2 = "(emit (Print ''Establishing connection with host...'') (init w))\<lparr>ssh_client := Some SSHClient\<rparr>"
  obtain r1 s3 where c1:
    "call_ext (ssh_connect_call cfg) (\<lambda>_. Done)
       (ssh_connect env (FTP_HOST cfg) (FTP_USERNAME cfg) (FTP_PASSWORD cfg) (FTP_PORT cfg)) ?s2 = (r1, s3)"
    by (cases "call_ext (ssh_connect_call cfg) (\<lambda>_. Done)
       (ssh_connect env (FTP_HOST cfg) (FTP_USERNAME cfg) (FTP_PASSWORD cfg) (FTP_PORT cfg)) ?s2")
  note e1 = call_ext_effect [OF c1]
  have i: "trace ?s2 = [Print ''Establishing connection with host...'']" "sftp_client ?s2 = None"
    "ssh_client ?s2 = Some SSHClient" "sftp_ok ?s2 = False"
    by (simp_all add: init_def)
  show ?thesis
  proof (cases r1)
    case (Inl e)
    with assms c1 e1 i show ?thesis
      by (auto simp: create_sftp_connection_def create_ssh_connection_def Let_def
          unopened_events_def ssh_connect_call_def)
  next
    case (Inr u)
    let ?s5 = "emit (Print ''Establishing SFTP connection...'') ((emit (Print ''connected'') s3)\<lparr>ssh_ok := True\<rparr>)"
    obtain r2 s6 where c2: "call_ext OpenSFTP (\<lambda>_. Done) (open_sftp env) ?s5 = (r2, s6)"
      by (cases "call_ext OpenSFTP (\<lambda>_. Done) (open_sftp env) ?s5")
    note e2 = call_ext_effect [OF c2]
    show ?thesis
    proof (cases r2)
      case (Inl e)
      with assms c1 e1 i Inr c2 e2 show ?thesis
        by (auto simp: create_sftp_connection_def create_ssh_connection_def Let_def
            unopened_events_def ssh_connect_call_def sftp_except_def)
    next
      case (Inr u2)
      with assms c1 e1 i \<open>r1 = Inr u\<close> c2 e2 show ?thesis
        by (auto simp: create_sftp_connection_def create_ssh_connection_def Let_def
            connected_events_def ssh_connect_call_def)
    qed
  qed
qed

lemma close_connections_None:
  "sftp_client s = None \<Longrightarrow>
   close_connections env s = (Inl AttributeError, emit (Print ''closing connections'') s)"
  by (simp add: close_connections_def)

lemma close_connections_events:
  assumes "sftp_client s = Some c" and "ssh_client s = Some d"
    and "close_connections env s = (r, s')"
  shows "\<exists>cl. trace s' = trace s @ cl \<and> close_events r cl"
proof -
  let ?s1 = "emit (Print ''closing connections'') s"
  obtain r1 s2 where c1: "call_ext SFTPClose (\<lambda>_. Done) (sftp_close env) ?s1 = (r1, s2)"
    by (cases "call_ext SFTPClose (\<lambda>_. Done) (sftp_close env) ?s1")
  note e1 = call_ext_effect [OF c1]
  show ?thesis
  proof (cases r1)
    case (Inl e)
    with assms c1 e1 show ?thesis
      by (auto simp: close_connections_def close_events_def)
  next
    case (Inr u)
    obtain r2 s3 where c2: "call_ext SSHClose (\<lambda>_. Done) (ssh_close env) s2 = (r2, s3)"
      by (cases "call_ext SSHClose (\<lambda>_. Done) (ssh_close env) s2")
    note e2 = call_ext_effect [OF c2]
    from assms c1 e1 Inr c2 e2 show ?thesis
      by (auto simp: close_connections_def close_events_def)
  qed
qed

section \<open>Every run follows the grammar\<close>

lemma ingest_listed_events:
  assumes sc: "sftp_client s = Some c" and hc: "ssh_client s = Some d"
    and run: "ingest_listed env cfg fs s = (ri, si)"
  shows "sftp_client si = sftp_client s \<and> ssh_client si = ssh_client s \<and>
     (\<exists>t up.
        (\<exists>e. ri = Inl e \<and> upload_events cfg (run_partition cfg t) fs [] (Inl e) up
              \<and> trace si = trace s @ Call Now (Time t) # up)
        \<or> (ri = Inr () \<and> upload_events cfg (run_partition cfg t) fs [] (Inr []) up
              \<and> trace si = trace s @ Call Now (Time t) # up @ [Print ''nothing to upload''])
        \<or> (\<exists>moved mv. ri = Inr () \<and> upload_events cfg (run_partition cfg t) fs [] (Inr moved) up
              \<and> moved \<noteq> [] \<and> move_events cfg moved mv
              \<and> trace si = trace s @ Call Now (Time t) # up @ mv))"
proof -
  obtain rp s1 where c1: "create_s3_partition env cfg s = (rp, s1)"
    by (cases "create_s3_partition env cfg s")
  from create_s3_partition_effect [OF c1] obtain t where
    p: "rp = Inr (run_partition cfg t)" and t1: "trace s1 = trace s @ [Call Now (Time t)]" and
    k1: "ssh_client s1 = ssh_client s" "sftp_client s1 = sftp_client s"
    by blast
  obtain ru s2 where c2: "upload_loop env cfg (run_partition cfg t) fs [] s1 = (ru, s2)"
    by (cases "upload_loop env cfg (run_partition cfg t) fs [] s1")
  from k1 sc have sc1: "sftp_client s1 = Some c" by simp
  from upload_loop_events [OF sc1 c2] obtain up where
    t2: "trace s2 = trace s1 @ up" and
    k2: "ssh_client s2 = ssh_client s1" "sftp_client s2 = sftp_client s1" and
    u: "upload_events cfg (run_partition cfg t) fs [] ru up"
    by blast
  show ?thesis
  proof (cases ru)
    case (Inl e)
    with run c1 p c2 have "ri = Inl e" "si = s2"
      by (simp_all add: ingest_listed_def)
    with Inl u t1 t2 k1 k2 show ?thesis by auto
  next
    case (Inr moved)
    show ?thesis
    proof (cases "moved = []")
      case True
      with run c1 p c2 Inr have "ri = Inr ()" "si = emit (Print ''nothing to upload'') s2"
        by (simp_all add: ingest_listed_def)
      with Inr True u t1 t2 k1 k2 show ?thesis by auto
    next
      case False
      with run c1 p c2 Inr have c3: "move_loop env cfg moved s2 = (ri, si)"
        by (simp add: ingest_listed_def)
      from k1 k2 hc have hc2: "ssh_client s2 = Some d" by simp
      from move_loop_events [OF hc2 c3] obtain mv where
        r3: "ri = Inr ()" and k3: "ssh_client si = ssh_client s2" "sftp_client si = sftp_client s2" and
        t3: "trace si = trace s2 @ mv" and m: "move_events cfg moved mv"
        by blast
      have "trace si = trace s @ Call Now (Time t) # up @ mv"
        using t1 t2 t3 by simp
      with Inr False u m r3 k1 k2 k3 show ?thesis by auto
    qed
  qed
qed

lemma initiate_after_try:
  assumes sc: "sftp_client s1 = Some c" and hc: "ssh_client s1 = Some d"
    and run: "(case (rt, s1) of
                 (Inl error, s) \<Rightarrow> close_connections env (emit (PrintErr ''file ingestion failed, error: '' error) s)
               | (Inr u, s) \<Rightarrow> close_connections env s) = (r, s')"
  shows "\<exists>cl. close_events r cl \<and>
           trace s' = trace s1 @ (case rt of Inl e \<Rightarrow> [PrintErr ''file ingestion failed, error: '' e] | Inr u \<Rightarrow> []) @ cl"
proof (cases rt)
  case (Inl e)
  with run have c: "close_connections env (emit (PrintErr ''file ingestion failed, error: '' e) s1) = (r, s')"
    by simp
  from sc hc have "sftp_client (emit (PrintErr ''file ingestion failed, error: '' e) s1) = Some c"
    "ssh_client (emit (PrintErr ''file ingestion failed, error: '' e) s1) = Some d"
    by simp_all
  from close_connections_events [OF this c] Inl show ?thesis by auto
next
  case (Inr u)
  with run have c: "close_connections env s1 = (r, s')"
    by simp
  from close_connections_events [OF sc hc c] Inr show ?thesis by auto
qed

theorem main_events:
  assumes run: "main env cfg w = (r, s')"
  shows "run_events cfg r (trace s')"
proof -
  obtain rc s1 where c1: "create_sftp_connection env cfg (init w) = (rc, s1)"
    by (cases "create_sftp_connection env cfg (init w)")
  from create_sftp_connection_init [OF c1]
  consider (unopened) "rc = Inr False" "unopened_events cfg (trace s1)" "sftp_client s1 = None"
    | (connected) "rc = Inr True" "trace s1 = connected_events cfg"
        "sftp_client s1 = Some SFTPClient" "ssh_client s1 = Some SSHClient"
    by (elim disjE conjE) simp_all
  then show ?thesis
  proof cases
    case unopened
    with run c1 have "r = Inl AttributeError"
      "s' = emit (Print ''closing connections'') (emit (Print ''Could not establish SFTP connection'') s1)"
      by (simp_all add: main_def initiate_ingestion_def ingestion_try_def close_connections_None)
    then have "trace s' = trace s1 @ [Print ''Could not establish SFTP connection'', Print ''closing connections'']"
      and "r = Inl AttributeError"
      by simp_all
    with re_unopened [OF unopened(2)] show ?thesis by simp
  next
    case connected
    obtain r2 s2 where c2:
      "call_ext (Chdir (PARENT_DIR_PATH cfg)) (\<lambda>_. Done) (sftp_chdir env (PARENT_DIR_PATH cfg)) s1 = (r2, s2)"
      by (cases "call_ext (Chdir (PARENT_DIR_PATH cfg)) (\<lambda>_. Done) (sftp_chdir env (PARENT_DIR_PATH cfg)) s1")
    note e2 = call_ext_effect [OF c2]
    from e2 connected have k2: "sftp_client s2 = Some SFTPClient" "ssh_client s2 = Some SSHClient"
      by simp_all
    show ?thesis
    proof (cases r2)
      case (Inl e)
      with run c1 connected c2 have
        "(case (Inl e :: exn + unit, s2) of
           (Inl error, s) \<Rightarrow> close_connections env (emit (PrintErr ''file ingestion failed, error: '' error) s)
         | (Inr u, s) \<Rightarrow> close_connections env s) = (r, s')"
        by (simp add: main_def initiate_ingestion_def ingestion_try_def)
      from initiate_after_try [OF k2 this] obtain cl where
        cl: "close_events r cl" and
        t: "trace s' = trace s2 @ [PrintErr ''file ingestion failed, error: '' e] @ cl"
        by auto
      from t e2 connected Inl have "trace s' = connected_events cfg @
        [Call (Chdir (PARENT_DIR_PATH cfg)) (Raised e), PrintErr ''file ingestion failed, error: '' e] @ cl"
        by simp
      with re_chdir_raised [OF cl] show ?thesis by simp
    next
      case (Inr u2)
      obtain r3 s3 where c3: "call_ext Listdir Names (sftp_listdir env) s2 = (r3, s3)"
        by (cases "call_ext Listdir Names (sftp_listdir env) s2")
      note e3 = call_ext_effect [OF c3]
      from e3 k2 have k3: "sftp_client s3 = Some SFTPClient" "ssh_client s3 = Some SSHClient"
        by simp_all
      show ?thesis
      proof (cases r3)
        case (Inl e)
        with run c1 connected c2 Inr c3 k2 have
          "(case (Inl e :: exn + unit, s3) of
             (Inl error, s) \<Rightarrow> close_connections env (emit (PrintErr ''file ingestion failed, error: '' error) s)
           | (Inr u, s) \<Rightarrow> close_connections env s) = (r, s')"
          by (simp add: main_def initiate_ingestion_def ingestion_try_def)
        from initiate_after_try [OF k3 this] obtain cl where
          cl: "close_events r cl" and
          t: "trace s' = trace s3 @ [PrintErr ''file ingestion failed, error: '' e] @ cl"
          by auto
        from t e2 e3 connected Inl Inr have "trace s' = connected_events cfg @
          [Call (Chdir (PARENT_DIR_PATH cfg)) Done, Call Listdir (Raised e),
           PrintErr ''file ingestion failed, error: '' e] @ cl"
          by simp
        with re_listdir_raised [OF cl] show ?thesis by simp
      next
        case (Inr fs)
        obtain ri si where c4: "ingest_listed env cfg fs s3 = (ri, si)"
          by (cases "ingest_listed env cfg fs s3")
        from run c1 connected c2 \<open>r2 = Inr u2\<close> c3 Inr k2 c4 have fin:
          "(case (ri, si) of
             (Inl error, s) \<Rightarrow> close_connections env (emit (PrintErr ''file ingestion failed, error: '' error) s)
           | (Inr u, s) \<Rightarrow> close_connections env s) = (r, s')"
          by (simp add: main_def initiate_ingestion_def ingestion_try_def)
        note ing = ingest_listed_events [OF k3 c4]
        from ing k3 have k4: "sftp_client si = Some SFTPClient" "ssh_client si = Some SSHClient"
          by simp_all
        from initiate_after_try [OF k4 fin] obtain cl where
          cl: "close_events r cl" and
          t: "trace s' = trace si @ (case ri of Inl e \<Rightarrow> [PrintErr ''file ingestion failed, error: '' e] | Inr u \<Rightarrow> []) @ cl"
          by auto
        have t3: "trace s3 = connected_events cfg @
            [Call (Chdir (PARENT_DIR_PATH cfg)) Done, Call Listdir (Names fs)]"
          using e2 e3 connected \<open>r2 = Inr u2\<close> Inr by simp
        from ing obtain tm up where alt:
          "(\<exists>e. ri = Inl e \<and> upload_events cfg (run_partition cfg tm) fs [] (Inl e) up
              \<and> trace si = trace s3 @ Call Now (Time tm) # up)
          \<or> (ri = Inr () \<and> upload_events cfg (run_partition cfg tm) fs [] (Inr []) up
              \<and> trace si = trace s3 @ Call Now (Time tm) # up @ [Print ''nothing to upload''])
          \<or> (\<exists>moved mv. ri = Inr () \<and> upload_events cfg (run_partition cfg tm) fs [] (Inr moved) up
              \<and> moved \<noteq> [] \<and> move_events cfg moved mv
              \<and> trace si = trace s3 @ Call Now (Time tm) # up @ mv)"
          by blast
        then consider
          (raised) e where "ri = Inl e" "upload_events cfg (run_partition cfg tm) fs [] (Inl e) up"
            "trace si = trace s3 @ Call Now (Time tm) # up"
          | (empty_list) "ri = Inr ()" "upload_events cfg (run_partition cfg tm) fs [] (Inr []) up"
            "trace si = trace s3 @ Call Now (Time tm) # up @ [Print ''nothing to upload'']"
          | (moved) moved mv where "ri = Inr ()"
            "upload_events cfg (run_partition cfg tm) fs [] (Inr moved) up"
            "moved \<noteq> []" "move_events cfg moved mv"
            "trace si = trace s3 @ Call Now (Time tm) # up @ mv"
          by blast
        then show ?thesis
        proof cases
          case raised
          with t t3 have "trace s' = listed_events cfg fs tm @ up
              @ [PrintErr ''file ingestion failed, error: '' e] @ cl"
            by (simp add: listed_events_def)
          with re_loop_raised [OF raised(2) cl] show ?thesis by simp
        next
          case empty_list
          with t t3 have "trace s' = listed_events cfg fs tm @ up @ [Print ''nothing to upload''] @ cl"
            by (simp add: listed_events_def)
          with re_nothing [OF empty_list(2) cl] show ?thesis by simp
        next
          case moved
          with t t3 have "trace s' = listed_events cfg fs tm @ up @ mv @ cl"
            by (simp add: listed_events_def)
          with re_moved [OF moved(2) moved(3) moved(4) cl] show ?thesis by simp
        qed
      qed
    qed
  qed
qed

section \<open>What the traces contain\<close>

lemma pick_Nil [simp]: "pick f [] = []"
  by (simp add: pick_def)

lemma pick_Cons [simp]: "pick f (e # es) = f e @ pick f es"
  by (simp add: pick_def)

lemma pick_append [simp]: "pick f (xs @ ys) = pick f xs @ pick f ys"
  by (simp add: pick_def)

lemmas proj_defs = touch_of_def clock_of_def listed_of_def opened_of_def opened_ok_of_def
  open_failure_of_def upload_key_of_def uploaded_ok_of_def exec_of_def exec_raised_of_def
  move_logged_of_def closing_of_def

lemma upload_events_quiet:
  "upload_events cfg P fs acc r evs \<Longrightarrow>
     pick clock_of evs = [] \<and> pick exec_of evs = [] \<and> pick listed_of evs = []
     \<and> pick exec_raised_of evs = [] \<and> pick move_logged_of evs = [] \<and> pick closing_of evs = []"
  by (induction rule: upload_events.induct) (simp_all add: proj_defs upload_call_def)

lemma upload_events_keys:
  "upload_events cfg P fs acc r evs \<Longrightarrow>
     pick upload_key_of evs = map ((@) P) (pick opened_ok_of evs)"
  by (induction rule: upload_events.induct) (simp_all add: proj_defs upload_call_def)

lemma upload_events_prefix:
  "upload_events cfg P fs acc r evs \<Longrightarrow> \<exists>rest. fs = pick opened_ok_of evs @ rest"
  by (induction rule: upload_events.induct) (simp_all add: proj_defs upload_call_def)

lemma upload_events_opened:
  "upload_events cfg P fs acc r evs \<Longrightarrow>
     pick opened_of evs = pick opened_ok_of evs @ pick open_failure_of evs"
  by (induction rule: upload_events.induct) (simp_all add: proj_defs upload_call_def)

lemma upload_events_finished:
  "upload_events cfg P fs acc r evs \<Longrightarrow>
     (\<forall>moved. r = Inr moved \<longrightarrow>
        pick opened_ok_of evs = fs \<and> pick open_failure_of evs = [] \<and>
        (\<exists>ns. moved = acc @ ns \<and> pick uploaded_ok_of evs = map ((@) P) ns))"
  by (induction rule: upload_events.induct) (auto simp: proj_defs upload_call_def)

lemma upload_events_raised:
  "upload_events cfg P fs acc r evs \<Longrightarrow> (\<forall>e. r = Inl e \<longrightarrow> pick open_failure_of evs \<noteq> [])"
  by (induction rule: upload_events.induct) (simp_all add: proj_defs upload_call_def)

lemma move_events_quiet:
  "move_events cfg fs evs \<Longrightarrow>
     pick clock_of evs = [] \<and> pick listed_of evs = [] \<and> pick opened_of evs = []
     \<and> pick opened_ok_of evs = [] \<and> pick open_failure_of evs = []
     \<and> pick upload_key_of evs = [] \<and> pick uploaded_ok_of evs = [] \<and> pick closing_of evs = []"
  by (induction rule: move_events.induct) (simp_all add: proj_defs)

lemma move_events_execs:
  "move_events cfg fs evs \<Longrightarrow>
     pick exec_of evs = map (mv_command cfg) fs \<and> pick move_logged_of evs = pick exec_raised_of evs"
  by (induction rule: move_events.induct) (simp_all add: proj_defs)

lemma connected_events_quiet:
  "pick touch_of (connected_events cfg) = []"
  "pick clock_of (connected_events cfg) = []"
  "pick listed_of (connected_events cfg) = []"
  "pick opened_of (connected_events cfg) = []"
  "pick opened_ok_of (connected_events cfg) = []"
  "pick open_failure_of (connected_events cfg) = []"
  "pick upload_key_of (connected_events cfg) = []"
  "pick uploaded_ok_of (connected_events cfg) = []"
  "pick exec_of (connected_events cfg) = []"
  "pick exec_raised_of (connected_events cfg) = []"
  "pick move_logged_of (connected_events cfg) = []"
  "pick closing_of (connected_events cfg) = []"
  by (simp_all add: connected_events_def ssh_connect_call_def proj_defs)

lemma ssh_except_message_not_move:
  "ssh_except_message e \<noteq> ''error moving files to processed directory, error: ''"
  by (cases e) (simp_all add: ssh_except_message_def)

lemma unopened_events_quiet:
  assumes "unopened_events cfg evs"
  shows "pick touch_of evs = []" "pick clock_of evs = []" "pick listed_of evs = []"
    "pick opened_of evs = []" "pick opened_ok_of evs = []" "pick open_failure_of evs = []"
    "pick upload_key_of evs = []" "pick uploaded_ok_of evs = []" "pick exec_of evs = []"
    "pick exec_raised_of evs = []" "pick move_logged_of evs = []" "pick closing_of evs = []"
  using assms
  by (auto simp: unopened_events_def ssh_connect_call_def proj_defs ssh_except_message_not_move)

lemma close_events_quiet:
  assumes "close_events r evs"
  shows "pick touch_of evs = []" "pick clock_of evs = []" "pick listed_of evs = []"
    "pick opened_of evs = []" "pick opened_ok_of evs = []" "pick open_failure_of evs = []"
    "pick upload_key_of evs = []" "pick uploaded_ok_of evs = []" "pick exec_of evs = []"
    "pick exec_raised_of evs = []" "pick move_logged_of evs = []" "pick closing_of evs = [()]"
  using assms by (auto simp: close_events_def proj_defs)

lemma listed_events_picks:
  "pick clock_of (listed_events cfg fs t) = [t]"
  "pick listed_of (listed_events cfg fs t) = [fs]"
  "pick opened_of (listed_events cfg fs t) = []"
  "pick opened_ok_of (listed_events cfg fs t) = []"
  "pick open_failure_of (listed_events cfg fs t) = []"
  "pick upload_key_of (listed_events cfg fs t) = []"
  "pick uploaded_ok_of (listed_events cfg fs t) = []"
  "pick exec_of (listed_events cfg fs t) = []"
  "pick exec_raised_of (listed_events cfg fs t) = []"
  "pick move_logged_of (listed_events cfg fs t) = []"
  "pick closing_of (listed_events cfg fs t) = []"
  by (simp_all add: listed_events_def connected_events_quiet) (simp_all add: proj_defs)

section \<open>The shape of a run\<close>

lemma idle_Nil [simp]: "idle []"
  by (simp add: idle_def)

lemma idle_append [simp]: "idle (xs @ ys) \<longleftrightarrow> idle xs \<and> idle ys"
  by (auto simp: idle_def)

lemma idle_connected: "idle (connected_events cfg)"
  by (simp add: idle_def connected_events_quiet)

lemma idle_unopened: "unopened_events cfg evs \<Longrightarrow> idle evs"
  by (simp add: idle_def unopened_events_quiet)

lemma idle_close: "close_events r evs \<Longrightarrow> idle evs"
  by (simp add: idle_def close_events_quiet)

lemma idle_skip:
  "idle (Print m # evs) \<longleftrightarrow> idle evs"
  "idle (PrintErr ''file ingestion failed, error: '' e # evs) \<longleftrightarrow> idle evs"
  "idle (Call (Chdir d) r # evs) \<longleftrightarrow> idle evs"
  "idle (Call Listdir (Raised e) # evs) \<longleftrightarrow> idle evs"
  by (simp_all add: idle_def proj_defs)

lemma run_trace_events: "run_events cfg (fst (main env cfg w)) (run_trace env cfg w)"
  unfolding run_trace_def by (rule main_events) simp

text \<open>Every run either never gets a listing, or lists, reads the clock, uploads, moves.\<close>

lemma run_cases [case_names unlisted loop_raised loop_finished]:
  obtains
    (unlisted) "idle (run_trace env cfg w)"
  | (loop_raised) fs t e up fin where
      "run_trace env cfg w = listed_events cfg fs t @ up @ fin"
      "upload_events cfg (run_partition cfg t) fs [] (Inl e) up" "idle fin"
  | (loop_finished) fs t moved up mv fin where
      "run_trace env cfg w = listed_events cfg fs t @ up @ mv @ fin"
      "upload_events cfg (run_partition cfg t) fs [] (Inr moved) up"
      "move_events cfg moved mv" "idle fin"
  using run_trace_events [of cfg env w]
proof cases
  case (re_unopened pre)
  then have "idle (run_trace env cfg w)"
    by (simp add: idle_unopened idle_skip)
  then show ?thesis by (rule unlisted)
next
  case (re_chdir_raised cl e)
  then have "idle (run_trace env cfg w)"
    by (simp add: idle_connected idle_close idle_skip)
  then show ?thesis by (rule unlisted)
next
  case (re_listdir_raised cl e)
  then have "idle (run_trace env cfg w)"
    by (simp add: idle_connected idle_close idle_skip)
  then show ?thesis by (rule unlisted)
next
  case (re_loop_raised t fs e up cl)
  have "idle ([PrintErr ''file ingestion failed, error: '' e] @ cl)"
    using re_loop_raised by (simp add: idle_close idle_skip)
  with re_loop_raised show ?thesis
    by (intro loop_raised [of fs t up "[PrintErr ''file ingestion failed, error: '' e] @ cl" e]) simp_all
next
  case (re_nothing t fs up cl)
  have "idle ([Print ''nothing to upload''] @ cl)"
    using re_nothing by (simp add: idle_close idle_skip)
  with re_nothing me_end [of cfg] show ?thesis
    by (intro loop_finished [of fs t up "[]" "[Print ''nothing to upload''] @ cl" "[]"]) simp_all
next
  case (re_moved t fs moved up mv cl)
  then show ?thesis
    by (intro loop_finished [of fs t up mv cl moved]) (simp_all add: idle_close)
qed

lemma digit_char_simps:
  "digit_char 0 = CHR ''0''" "digit_char 1 = CHR ''1''" "digit_char 2 = CHR ''2''"
  "digit_char 3 = CHR ''3''" "digit_char 4 = CHR ''4''" "digit_char 5 = CHR ''5''"
  "digit_char 6 = CHR ''6''" "digit_char 7 = CHR ''7''" "digit_char 8 = CHR ''8''"
  "digit_char 9 = CHR ''9''" "digit_char (Suc 0) = CHR ''1''"
  by (simp_all add: digit_char_def char_of_def bit_0)

lemmas run_defs = run_trace_def main_def initiate_ingestion_def ingestion_try_def ingest_listed_def
  create_sftp_connection_def create_ssh_connection_def sftp_except_def create_s3_partition_def
  s3_upload_file_multipart_def move_files_to_processed_def close_connections_def
  call_ext_def emit_def init_def resp_of_def index_py_def partition_string_def str_int_def
  mv_command_def digit_char_simps sim_env_def cfg0_def t0_def Let_def

lemma run_open_fails:
  "main env_open_fails cfg0 () =
     (Inr (),
      \<lparr>ssh_client = Some SSHClient, sftp_client = Some SFTPClient, ssh_ok = True, sftp_ok = True,
       world = (),
       trace =
         [Print ''Establishing connection with host...'',
          Call (SSHConnect ''h'' ''u'' ''p'' ''22'') Done,
          Print ''connected'', Print ''Establishing SFTP connection...'',
          Call OpenSFTP Done, Print ''SFTP connection successfull'',
          Call (Chdir ''/data/exports'') Done,
          Call Listdir (Names [''a.csv'', ''b.bin'', ''c.txt'']),
          Call Now (Time t0),
          Call (SFTPFile ''a.csv'') (Opened 0),
          Call (UploadFileobj 0 ''b'' ''exports/year = 2024/month = 5/day = 3/hour = 13/a.csv''
                  the_transfer_config) Done,
          Print ''file uploaded to s3'',
          Call (SFTPFile ''b.bin'') (Raised OtherException),
          PrintErr ''file ingestion failed, error: '' OtherException,
          Print ''closing connections'', Call SFTPClose Done, Call SSHClose Done]\<rparr>)"
  by (simp add: run_defs env_open_fails_def)

lemma run_mixed:
  "main env_mixed cfg0 () =
     (Inr (),
      \<lparr>ssh_client = Some SSHClient, sftp_client = Some SFTPClient, ssh_ok = True, sftp_ok = True,
       world = (),
       trace =
         [Print ''Establishing connection with host...'',
          Call (SSHConnect ''h'' ''u'' ''p'' ''22'') Done,
          Print ''connected'', Print ''Establishing SFTP connection...'',
          Call OpenSFTP Done, Print ''SFTP connection successfull'',
          Call (Chdir ''/data/exports'') Done,
          Call Listdir (Names [''a.csv'', ''b.bin'']),
          Call Now (Time t0),
          Call (SFTPFile ''a.csv'') (Opened 0),
          Call (UploadFileobj 0 ''b'' ''exports/year = 2024/month = 5/day = 3/hour = 13/a.csv''
                  the_transfer_config) Done,
          Print ''file uploaded to s3'',
          Call (SFTPFile ''b.bin'') (Opened 0),
          Call (UploadFileobj 0 ''b'' ''exports/year = 2024/month = 5/day = 3/hour = 13/b.bin''
                  the_transfer_config) (Raised OtherException),
          PrintErr ''could not upload file using multipart upload, error: '' OtherException,
          Print ''moving a.csv to processed directory.'',
          Call (ExecCommand ''mv /data/exports/a.csv /data/processed/a.csv'') (Raised OtherException),
          PrintErr ''error moving files to processed directory, error: '' OtherException,
          Print ''closing connections'', Call SFTPClose Done, Call SSHClose Done]\<rparr>)"
  by (simp add: run_defs env_mixed_def)


lemma run_sftp_down:
  "main env_sftp_down cfg0 () =
     (Inl AttributeError,
      \<lparr>ssh_client = Some SSHClient, sftp_client = None, ssh_ok = True, sftp_ok = False,
       world = (),
       trace =
         [Print ''Establishing connection with host...'',
          Call (SSHConnect ''h'' ''u'' ''p'' ''22'') Done,
          Print ''connected'', Print ''Establishing SFTP connection...'',
          Call OpenSFTP (Raised SFTPError),
          PrintErr ''could not establish sftp connection, error: '' SFTPError,
          Print ''Could not establish SFTP connection'',
          Print ''closing connections'']\<rparr>)"
  by (simp add: run_defs env_sftp_down_def)

section \<open>Uploads, partition key and moves\<close>

text \<open>
  \<^bold>\<open>C6\<close> A file is moved to the processed directory only if its upload reported success.
  In every run, either no \<^verbatim>\<open>mv\<close> command is executed at all, or the commands executed are,
  in order, exactly the move commands of the names \<open>ns\<close> whose uploads completed without
  raising (the successful uploads are the keys \<open>P @ n\<close> for \<open>n\<close> in \<open>ns\<close>): a file whose upload
  failed is never moved.
\<close>

theorem move_only_after_upload_success:
  "pick exec_of (run_trace env cfg w) = []
   \<or> (\<exists>P ns. pick exec_of (run_trace env cfg w) = map (mv_command cfg) ns
         \<and> pick uploaded_ok_of (run_trace env cfg w) = map ((@) P) ns)"
proof (cases rule: run_cases [of env cfg w])
  case unlisted
  then show ?thesis by (simp add: idle_def)
next
  case (loop_raised fs t e up fin)
  with upload_events_quiet [OF loop_raised(2)] show ?thesis
    by (simp add: idle_def listed_events_picks)
next
  case (loop_finished fs t moved up mv fin)
  from upload_events_finished [OF loop_finished(2)]
  have u: "pick uploaded_ok_of up = map ((@) (run_partition cfg t)) moved"
    by simp
  have "pick exec_of (run_trace env cfg w) = map (mv_command cfg) moved"
    using loop_finished upload_events_quiet [OF loop_finished(2)] move_events_execs [OF loop_finished(3)]
    by (simp add: idle_def listed_events_picks)
  moreover have "pick uploaded_ok_of (run_trace env cfg w) = map ((@) (run_partition cfg t)) moved"
    using loop_finished u move_events_quiet [OF loop_finished(3)]
    by (simp add: idle_def listed_events_picks)
  ultimately show ?thesis by blast
qed

text \<open>
  \<^bold>\<open>C5\<close> The partition key is computed once, before the loop over the files, and every
  upload of the run goes to that key followed by the file name. Either the run never reads
  the clock and uploads nothing, or its trace is \<open>T1\<close>, one clock reading \<open>t\<close>, \<open>T2\<close>: the
  listing is taken in \<open>T1\<close>, no file is opened or uploaded in \<open>T1\<close>, the clock is not read again
  in \<open>T2\<close>, and the upload keys of \<open>T2\<close> are \<open>run_partition cfg t @ name\<close> for the names opened,
  a prefix of the listing, in listing order.
\<close>

theorem partition_key_once:
  "(pick clock_of (run_trace env cfg w) = [] \<and> pick upload_key_of (run_trace env cfg w) = []
      \<and> pick opened_of (run_trace env cfg w) = [])
   \<or> (\<exists>fs t T1 T2 names rest.
         run_trace env cfg w = T1 @ Call Now (Time t) # T2
         \<and> pick listed_of T1 = [fs] \<and> pick clock_of T1 = [] \<and> pick opened_of T1 = []
         \<and> pick upload_key_of T1 = [] \<and> pick clock_of T2 = []
         \<and> fs = names @ rest \<and> pick opened_ok_of T2 = names
         \<and> pick upload_key_of T2 = map ((@) (run_partition cfg t)) names)"
proof (cases rule: run_cases [of env cfg w])
  case unlisted
  then show ?thesis by (simp add: idle_def)
next
  case (loop_raised fs t e up fin)
  let ?T1 = "connected_events cfg @ [Call (Chdir (PARENT_DIR_PATH cfg)) Done, Call Listdir (Names fs)]"
  from upload_events_prefix [OF loop_raised(2)] obtain rest where
    r: "fs = pick opened_ok_of up @ rest" by blast
  have a: "run_trace env cfg w = ?T1 @ Call Now (Time t) # (up @ fin)"
    using loop_raised(1) by (simp add: listed_events_def)
  have b: "pick listed_of ?T1 = [fs]" "pick clock_of ?T1 = []" "pick opened_of ?T1 = []"
    "pick upload_key_of ?T1 = []"
    by (simp_all add: connected_events_quiet) (simp_all add: proj_defs)
  have c: "pick clock_of (up @ fin) = []" "pick opened_ok_of (up @ fin) = pick opened_ok_of up"
    "pick upload_key_of (up @ fin) = map ((@) (run_partition cfg t)) (pick opened_ok_of up)"
    using loop_raised(3) upload_events_quiet [OF loop_raised(2)] upload_events_keys [OF loop_raised(2)]
    by (simp_all add: idle_def)
  from a b c r show ?thesis by blast
next
  case (loop_finished fs t moved up mv fin)
  let ?T1 = "connected_events cfg @ [Call (Chdir (PARENT_DIR_PATH cfg)) Done, Call Listdir (Names fs)]"
  from upload_events_prefix [OF loop_finished(2)] obtain rest where
    r: "fs = pick opened_ok_of up @ rest" by blast
  have a: "run_trace env cfg w = ?T1 @ Call Now (Time t) # (up @ mv @ fin)"
    using loop_finished(1) by (simp add: listed_events_def)
  have b: "pick listed_of ?T1 = [fs]" "pick clock_of ?T1 = []" "pick opened_of ?T1 = []"
    "pick upload_key_of ?T1 = []"
    by (simp_all add: connected_events_quiet) (simp_all add: proj_defs)
  have c: "pick clock_of (up @ mv @ fin) = []"
    "pick opened_ok_of (up @ mv @ fin) = pick opened_ok_of up"
    "pick upload_key_of (up @ mv @ fin) = map ((@) (run_partition cfg t)) (pick opened_ok_of up)"
    using loop_finished(4) upload_events_quiet [OF loop_finished(2)]
      upload_events_keys [OF loop_finished(2)] move_events_quiet [OF loop_finished(3)]
    by (simp_all add: idle_def)
  from a b c r show ?thesis by blast
qed


text \<open>
  The sibling path: a failure of \<^verbatim>\<open>upload_fileobj\<close> is caught inside
  \<^verbatim>\<open>s3_upload_file_multipart\<close> and the loop goes on. In a run that took the listing \<open>fs\<close>, the
  files whose upload is attempted are a prefix \<open>names\<close> of \<open>fs\<close>, each under the run's key
  followed by its name, and as long as no remote read stream failed to open that prefix is
  all of \<open>fs\<close>, whatever the uploads themselves did.
\<close>

lemma upload_failures_isolated:
  assumes "pick listed_of (run_trace env cfg w) = [fs]"
  shows "\<exists>t names rest. fs = names @ rest
           \<and> pick opened_ok_of (run_trace env cfg w) = names
           \<and> pick upload_key_of (run_trace env cfg w) = map ((@) (run_partition cfg t)) names
           \<and> (pick open_failure_of (run_trace env cfg w) = [] \<longrightarrow> rest = [])"
proof (cases rule: run_cases [of env cfg w])
  case unlisted
  with assms show ?thesis by (simp add: idle_def)
next
  case (loop_raised fs' t e up fin)
  have eq: "fs' = fs"
    using assms loop_raised upload_events_quiet [OF loop_raised(2)]
    by (simp add: idle_def listed_events_picks)
  from upload_events_prefix [OF loop_raised(2)] obtain rest where
    r: "fs' = pick opened_ok_of up @ rest" by blast
  have "pick opened_ok_of (run_trace env cfg w) = pick opened_ok_of up"
    "pick upload_key_of (run_trace env cfg w)
       = map ((@) (run_partition cfg t)) (pick opened_ok_of up)"
    "pick open_failure_of (run_trace env cfg w) \<noteq> []"
    using loop_raised upload_events_keys [OF loop_raised(2)] upload_events_raised [OF loop_raised(2)]
    by (simp_all add: idle_def listed_events_picks)
  with r eq show ?thesis by blast
next
  case (loop_finished fs' t moved up mv fin)
  have eq: "fs' = fs"
    using assms loop_finished upload_events_quiet [OF loop_finished(2)]
      move_events_quiet [OF loop_finished(3)]
    by (simp add: idle_def listed_events_picks)
  from upload_events_finished [OF loop_finished(2)]
  have f: "pick opened_ok_of up = fs'" by simp
  have "pick opened_ok_of (run_trace env cfg w) = fs'"
    "pick upload_key_of (run_trace env cfg w) = map ((@) (run_partition cfg t)) fs'"
    using loop_finished f upload_events_keys [OF loop_finished(2)]
      move_events_quiet [OF loop_finished(3)]
    by (simp_all add: idle_def listed_events_picks)
  with eq show ?thesis
    by (intro exI [of _ t] exI [of _ fs] exI [of _ "[]"]) simp
qed

section \<open>Concrete runs; session opening, upload result, closing\<close>

lemma mixed_picks:
  "pick listed_of (run_trace env_mixed cfg0 ()) = [[''a.csv'', ''b.bin'']]"
  "pick clock_of (run_trace env_mixed cfg0 ()) = [t0]"
  "pick opened_ok_of (run_trace env_mixed cfg0 ()) = [''a.csv'', ''b.bin'']"
  "pick open_failure_of (run_trace env_mixed cfg0 ()) = []"
  "pick upload_key_of (run_trace env_mixed cfg0 ()) = [key0 ''a.csv'', key0 ''b.bin'']"
  "pick uploaded_ok_of (run_trace env_mixed cfg0 ()) = [key0 ''a.csv'']"
  "pick exec_of (run_trace env_mixed cfg0 ()) = [''mv /data/exports/a.csv /data/processed/a.csv'']"
  "pick exec_raised_of (run_trace env_mixed cfg0 ()) = [OtherException]"
  "pick move_logged_of (run_trace env_mixed cfg0 ()) = [OtherException]"
  by (simp_all add: run_trace_def run_mixed proj_defs key0_def)


lemma open_fails_picks:
  "pick listed_of (run_trace env_open_fails cfg0 ()) = [[''a.csv'', ''b.bin'', ''c.txt'']]"
  "pick opened_of (run_trace env_open_fails cfg0 ()) = [''a.csv'', ''b.bin'']"
  "pick open_failure_of (run_trace env_open_fails cfg0 ()) = [''b.bin'']"
  "pick upload_key_of (run_trace env_open_fails cfg0 ()) = [key0 ''a.csv'']"
  "pick uploaded_ok_of (run_trace env_open_fails cfg0 ()) = [key0 ''a.csv'']"
  "pick exec_of (run_trace env_open_fails cfg0 ()) = []"
  by (simp_all add: run_trace_def run_open_fails proj_defs key0_def)

lemma run_partition_cfg0: "run_partition cfg0 t0 = key0 []"
  by (simp add: run_partition_def partition_string_def cfg0_def t0_def str_int_def
      digit_char_simps key0_def)

theorem move_only_after_upload_success_witness:
  "pick exec_of (run_trace env_mixed cfg0 ()) = [''mv /data/exports/a.csv /data/processed/a.csv'']
   \<and> pick uploaded_ok_of (run_trace env_mixed cfg0 ()) = [key0 ''a.csv'']
   \<and> (\<exists>P ns. pick exec_of (run_trace env_mixed cfg0 ()) = map (mv_command cfg0) ns
         \<and> pick uploaded_ok_of (run_trace env_mixed cfg0 ()) = map ((@) P) ns)"
  using move_only_after_upload_success [of env_mixed cfg0 "()"]
  by (simp add: mixed_picks)

text \<open>
  \<^bold>\<open>C2\<close> A failure to open one file's remote read stream aborts the processing of the
  remaining files: \<^verbatim>\<open>sftp_client.file\<close> is called in the loop outside any per-file handler.
  With the listing \<^verbatim>\<open>a.csv\<close>, \<^verbatim>\<open>b.bin\<close>, \<^verbatim>\<open>c.txt\<close> and \<^verbatim>\<open>b.bin\<close> failing to open, the only
  upload attempted is that of \<^verbatim>\<open>a.csv\<close>, which succeeds; \<^verbatim>\<open>c.txt\<close> is never opened or
  uploaded, and nothing is moved, not even \<^verbatim>\<open>a.csv\<close>.
\<close>

theorem open_failure_aborts_remaining:
  "pick listed_of (run_trace env_open_fails cfg0 ()) = [[''a.csv'', ''b.bin'', ''c.txt'']]
   \<and> pick open_failure_of (run_trace env_open_fails cfg0 ()) = [''b.bin'']
   \<and> pick opened_of (run_trace env_open_fails cfg0 ()) = [''a.csv'', ''b.bin'']
   \<and> pick upload_key_of (run_trace env_open_fails cfg0 ()) = [key0 ''a.csv'']
   \<and> pick uploaded_ok_of (run_trace env_open_fails cfg0 ()) = [key0 ''a.csv'']
   \<and> pick exec_of (run_trace env_open_fails cfg0 ()) = []"
  by (simp add: open_fails_picks)


text \<open>
  \<^bold>\<open>C8\<close> When the session cannot be opened (\<^verbatim>\<open>create_sftp_connection\<close> returns
  \<^verbatim>\<open>False\<close>, the SSH or the SFTP connection not established), no file is touched: the run
  changes no directory, takes no listing, opens and uploads no file and executes no command;
  after the connection attempt it only prints that the connection could not be established
  and goes on to \<^verbatim>\<open>close_connections\<close>.
\<close>

theorem failed_open_touches_nothing:
  assumes "fst (create_sftp_connection env cfg (init w)) = Inr False"
  shows "pick touch_of (run_trace env cfg w) = []
         \<and> run_trace env cfg w
             = trace (snd (create_sftp_connection env cfg (init w)))
               @ [Print ''Could not establish SFTP connection'', Print ''closing connections'']"
proof -
  obtain r s1 where c: "create_sftp_connection env cfg (init w) = (r, s1)"
    by (cases "create_sftp_connection env cfg (init w)")
  with assms have r: "r = Inr False" by simp
  from create_sftp_connection_init [OF c] r
  have u: "unopened_events cfg (trace s1)" and n: "sftp_client s1 = None"
    by simp_all
  have "sftp_client (emit (Print ''Could not establish SFTP connection'') s1) = None"
    using n by simp
  from close_connections_None [OF this, of env] c r
  have t: "run_trace env cfg w
           = trace s1 @ [Print ''Could not establish SFTP connection'', Print ''closing connections'']"
    by (simp add: run_trace_def main_def initiate_ingestion_def ingestion_try_def)
  moreover have "pick touch_of (run_trace env cfg w) = []"
    using t unopened_events_quiet(1) [OF u] by (simp add: proj_defs)
  ultimately show ?thesis using c by simp
qed

lemma sftp_down_connection:
  "fst (create_sftp_connection env_sftp_down cfg0 (init ())) = Inr False"
  by (simp add: run_defs env_sftp_down_def)

theorem failed_open_touches_nothing_witness:
  "fst (create_sftp_connection env_sftp_down cfg0 (init ())) = Inr False
   \<and> pick touch_of (run_trace env_sftp_down cfg0 ()) = []
   \<and> run_trace env_sftp_down cfg0 ()
       = [Print ''Establishing connection with host...'',
          Call (SSHConnect ''h'' ''u'' ''p'' ''22'') Done,
          Print ''connected'', Print ''Establishing SFTP connection...'',
          Call OpenSFTP (Raised SFTPError),
          PrintErr ''could not establish sftp connection, error: '' SFTPError,
          Print ''Could not establish SFTP connection'',
          Print ''closing connections'']"
proof -
  note h = sftp_down_connection
  from failed_open_touches_nothing [OF h] h show ?thesis
    by (simp add: run_trace_def run_sftp_down)
qed

text \<open>
  \<^bold>\<open>C10\<close> \<^verbatim>\<open>s3_upload_file_multipart\<close> always returns a boolean and never raises: the
  result is \<^verbatim>\<open>True\<close> exactly when \<^verbatim>\<open>upload_fileobj\<close> did not raise, \<^verbatim>\<open>False\<close> otherwise.
\<close>

theorem upload_returns_bool:
  "fst (s3_upload_file_multipart env cfg f k s)
     = Inr (\<not> isl (fst (upload_fileobj env f (S3_BUCKET cfg) k the_transfer_config (world s))))"
  by (auto simp: s3_upload_file_multipart_def call_ext_def Let_def split: prod.splits sum.splits)

text \<open>
  \<^bold>\<open>C1\<close> \<^verbatim>\<open>close_connections\<close> is not safe when the session was never opened. SSH up,
  \<^verbatim>\<open>open_sftp\<close> raising: \<^verbatim>\<open>sftp_client\<close> is still \<^verbatim>\<open>None\<close> when \<^verbatim>\<open>close_connections\<close>
  calls \<^verbatim>\<open>close\<close> on it, so the run ends with \<^verbatim>\<open>AttributeError\<close> leaving
  \<^verbatim>\<open>initiate_ingestion\<close>, right after printing \<^verbatim>\<open>closing connections\<close>, and the SSH client
  that was connected is never closed.
\<close>

theorem close_raises_when_session_not_opened:
  "fst (main env_sftp_down cfg0 ()) = Inl AttributeError
   \<and> ssh_client (snd (main env_sftp_down cfg0 ())) = Some SSHClient
   \<and> run_trace env_sftp_down cfg0 ()
       = [Print ''Establishing connection with host...'',
          Call (SSHConnect ''h'' ''u'' ''p'' ''22'') Done,
          Print ''connected'', Print ''Establishing SFTP connection...'',
          Call OpenSFTP (Raised SFTPError),
          PrintErr ''could not establish sftp connection, error: '' SFTPError,
          Print ''Could not establish SFTP connection'',
          Print ''closing connections'']"
  by (simp add: run_trace_def run_sftp_down)

section \<open>The partition key and the move command\<close>

lemma split_py_length: "length (split_py c s) = Suc (count_list s c)"
  by (induction s) (auto split: list.splits)

lemma split_py_single: "c \<notin> set s \<Longrightarrow> split_py c s = [s]"
  by (induction s) auto


lemma split_py_append: "split_py c (a @ c # b) = split_py c a @ split_py c b"
proof (induction a)
  case Nil
  then show ?case by simp
next
  case (Cons x a)
  then show ?case
    using split_py_nonempty [of c a] by (cases "split_py c a") auto
qed



lemma split_py_last_clean: "c \<notin> set (last (split_py c s))"
proof (induction s)
  case Nil
  then show ?case by simp
next
  case (Cons x s)
  obtain w ws where a: "split_py c s = w # ws"
    using split_py_nonempty [of c s] by (cases "split_py c s") auto
  with Cons show ?case
    by (cases ws) auto
qed

lemma split_py_last_suffix:
  "\<exists>pre. s = pre @ last (split_py c s) \<and> (pre = [] \<or> last pre = c)"
proof (induction s)
  case Nil
  then show ?case by simp
next
  case (Cons x s)
  then obtain pre where p: "s = pre @ last (split_py c s)" "pre = [] \<or> last pre = c"
    by blast
  obtain w ws where a: "split_py c s = w # ws"
    using split_py_nonempty [of c s] by (cases "split_py c s") auto
  show ?case
  proof (cases "x = c")
    case True
    have "x # s = (x # pre) @ last (split_py c (x # s))"
      using p(1) True a by simp
    moreover have "last (x # pre) = c" using p(2) True by auto
    ultimately show ?thesis by blast
  next
    case False
    show ?thesis
    proof (cases ws)
      case Nil
      have "count_list s c = 0"
        using a Nil split_py_length [of c s] by simp
      then have "c \<notin> set s" by (simp add: count_list_0_iff)
      then have "split_py c (x # s) = [x # s]" using False by (simp add: split_py_single)
      then show ?thesis by (intro exI [of _ "[]"]) simp
    next
      case (Cons v vs)
      have "x # s = (x # pre) @ last (split_py c (x # s))"
        using p(1) False a Cons by simp
      moreover have "pre \<noteq> []"
      proof
        assume "pre = []"
        with p(1) have "s = last (split_py c s)" by simp
        with split_py_last_clean [of c s] have "c \<notin> set s" by simp
        then have "split_py c s = [s]" by (rule split_py_single)
        with a Cons show False by simp
      qed
      then have "last (x # pre) = c" using p(2) by simp
      ultimately show ?thesis by blast
    qed
  qed
qed

lemma str_int_digit: "0 \<le> n \<Longrightarrow> n < 10 \<Longrightarrow> str_int n = [digit_char (nat n)]"
  by (simp add: str_int_def)

lemma digit_char_below_ten:
  assumes "d < 10"
  shows "digit_char d = ''0123456789'' ! d"
proof -
  from assms have "d = 0 \<or> d = 1 \<or> d = 2 \<or> d = 3 \<or> d = 4 \<or> d = 5 \<or> d = 6
    \<or> d = 7 \<or> d = 8 \<or> d = 9"
    by arith
  then show ?thesis
    by (elim disjE) (simp_all add: digit_char_simps)
qed

text \<open>
  \<^bold>\<open>C4\<close> The partition key is the last segment of the source directory path followed by
  \<^verbatim>\<open>/year = Y/month = M/day = D/hour = H/\<close>, with the numbers in plain decimal (one digit for
  a value below ten): a function of the path and the clock reading alone. The last segment
  is what follows the last \<^verbatim>\<open>/\<close> of the path. For \<^verbatim>\<open>/data/exports\<close> at 2024-05-03 13:00
  the key is \<^verbatim>\<open>exports/year = 2024/month = 5/day = 3/hour = 13/\<close>.
\<close>

theorem partition_key_format:
  assumes "0 \<le> n" and "n < 10"
  shows "(let t = fst (datetime_now env (world s));
              seg = last (split_py CHR ''/'' (PARENT_DIR_PATH cfg))
          in fst (create_s3_partition env cfg s)
               = Inr (seg @ ''/year = '' @ str_int (year t) @ ''/month = '' @ str_int (month t)
                        @ ''/day = '' @ str_int (day t) @ ''/hour = '' @ str_int (hour t) @ ''/'')
             \<and> (\<exists>pre. PARENT_DIR_PATH cfg = pre @ seg \<and> (pre = [] \<or> last pre = CHR ''/''))
             \<and> CHR ''/'' \<notin> set seg)
         \<and> str_int n = [''0123456789'' ! nat n]"
proof -
  have "index_py (split_py CHR ''/'' (PARENT_DIR_PATH cfg)) (- 1)
          = Inr (last (split_py CHR ''/'' (PARENT_DIR_PATH cfg)))"
    by (rule index_py_last) (rule split_py_nonempty)
  then have "fst (create_s3_partition env cfg s)
      = Inr (partition_string (last (split_py CHR ''/'' (PARENT_DIR_PATH cfg)))
               (fst (datetime_now env (world s))))"
    by (simp add: create_s3_partition_def split: prod.splits)
  moreover have "str_int n = [''0123456789'' ! nat n]"
    using assms digit_char_below_ten [of "nat n"] by (simp add: str_int_digit)
  ultimately show ?thesis
    using split_py_last_suffix [of "PARENT_DIR_PATH cfg" "CHR ''/''"]
      split_py_last_clean [of "CHR ''/''" "PARENT_DIR_PATH cfg"]
    by (simp add: Let_def partition_string_def)
qed

theorem partition_key_format_witness:
  "(0::int) \<le> 5 \<and> (5::int) < 10 \<and> str_int 5 = ''5''
   \<and> fst (create_s3_partition env_mixed cfg0 (init ()))
       = Inr ''exports/year = 2024/month = 5/day = 3/hour = 13/''"
proof -
  have h: "(0::int) \<le> 5" "(5::int) < 10" by simp_all
  from partition_key_format [OF h, where env = env_mixed and s = "init ()" and cfg = cfg0] h
  show ?thesis
    by (simp add: Let_def env_mixed_def sim_env_def init_def cfg0_def t0_def str_int_def
        digit_char_simps)
qed



theorem partition_key_once_witness:
  "pick clock_of (run_trace env_mixed cfg0 ()) = [t0]
   \<and> pick upload_key_of (run_trace env_mixed cfg0 ()) = [key0 ''a.csv'', key0 ''b.bin'']
   \<and> (\<exists>fs t T1 T2 names rest.
         run_trace env_mixed cfg0 () = T1 @ Call Now (Time t) # T2
         \<and> pick listed_of T1 = [fs] \<and> pick clock_of T1 = [] \<and> pick opened_of T1 = []
         \<and> pick upload_key_of T1 = [] \<and> pick clock_of T2 = []
         \<and> fs = names @ rest \<and> pick opened_ok_of T2 = names
         \<and> pick upload_key_of T2 = map ((@) (run_partition cfg0 t)) names)"
  using partition_key_once [of env_mixed cfg0 "()"]
  by (simp add: mixed_picks)

theorem upload_returns_bool_witness:
  "fst (s3_upload_file_multipart env_mixed cfg0 0 (key0 ''b.bin'') (init ())) = Inr False
   \<and> fst (s3_upload_file_multipart env_mixed cfg0 0 (key0 ''a.csv'') (init ())) = Inr True"
  using upload_returns_bool [of env_mixed cfg0 0 "key0 ''b.bin''" "init ()"]
    upload_returns_bool [of env_mixed cfg0 0 "key0 ''a.csv''" "init ()"]
  by (simp add: env_mixed_def sim_env_def key0_def)

end
